theory Spec2Isabelle
  imports Main
begin

section \<open>Data model\<close>

text \<open>
  Identifiers are the UUID strings of the database. Instants (the ISO date-time strings
  of the source) are integers: milliseconds since the epoch, UTC, as
  \<^verbatim>\<open>Date.getTime()\<close> reads them. Minutes and percentages are integers.
\<close>

type_synonym uuid = string
type_synonym instant = int

datatype UserRole = admin | learner

datatype EnrollmentStatus = assigned | in_progress | completed | cancelled

text \<open>
  \<^verbatim>\<open>Session\<close> of \<^verbatim>\<open>types/next-auth.d.ts\<close>: the \<^verbatim>\<open>user\<close> object with its
  \<^verbatim>\<open>id\<close> and \<^verbatim>\<open>role\<close>. A caller without a session is \<open>None\<close>.
\<close>

record Session =
  user_id :: uuid
  user_role :: UserRole

text \<open>The outcome of an awaited call: it throws or it returns a value.\<close>

datatype 'a promise = Rejected | Resolved 'a

record User =
  usr_id :: uuid
  usr_role :: UserRole

record Course =
  crs_id :: uuid
  crs_is_active :: bool

record Enrollment =
  enr_id :: uuid
  enr_learner_id :: uuid
  enr_course_id :: uuid
  enr_status :: EnrollmentStatus
  enr_progress_percentage :: "int option"
  enr_assigned_by :: "uuid option"
  enr_assigned_at :: "instant option"
  enr_started_at :: "instant option"
  enr_completed_at :: "instant option"
  enr_due_date :: "string option"
  enr_created_at :: "instant option"
  enr_updated_at :: "instant option"

record LearningRecord =
  lr_id :: uuid
  lr_enrollment_id :: uuid
  lr_course_id :: uuid
  lr_learner_id :: uuid
  lr_session_start_time :: instant
  lr_session_end_time :: "instant option"
  lr_session_duration_minutes :: "int option"
  lr_session_date :: int
  lr_progress_percentage :: "int option"
  lr_understanding_level :: "int option"
  lr_learning_memo :: "string option"
  lr_cumulative_learning_minutes :: "int option"
  lr_created_at :: "instant option"
  lr_updated_at :: "instant option"

text \<open>
  The tables the handlers read and write. A query or a write of the store succeeds (the
  500 responses of the handlers on a store error are not modelled), and a response
  carries the row itself without the joined rows of other tables.
\<close>

record Store =
  users :: "User list"
  courses :: "Course list"
  enrollments :: "Enrollment list"
  learning_records :: "LearningRecord list"

text \<open>
  The responses of the handlers that are not a success, each with its HTTP status.
\<close>

datatype error =
    Unauthorized
  | Forbidden
  | NotFound
  | InvalidInput
  | CancelledEnrollment
  | CourseNotFoundOrInactive
  | StaleEditWindow
  | LearnerNotFound
  | NotALearner
  | CourseNotFound
  | InactiveCourse
  | DuplicateEnrollment
  | HasDependentRecords
  | InternalError

fun http_status :: "error \<Rightarrow> nat" where
  "http_status Unauthorized = 401"
| "http_status Forbidden = 403"
| "http_status NotFound = 404"
| "http_status InvalidInput = 400"
| "http_status CancelledEnrollment = 400"
| "http_status CourseNotFoundOrInactive = 404"
| "http_status StaleEditWindow = 400"
| "http_status LearnerNotFound = 404"
| "http_status NotALearner = 400"
| "http_status CourseNotFound = 404"
| "http_status InactiveCourse = 400"
| "http_status DuplicateEnrollment = 409"
| "http_status HasDependentRecords = 409"
| "http_status InternalError = 500"

section \<open>Helpers of the store client and of JavaScript\<close>

text \<open>
  \<^verbatim>\<open>.single()\<close>: the one row of the result, and no data (error PGRST116) when the
  result has no row or several.
\<close>

fun single :: "'a list \<Rightarrow> 'a option" where
  "single [x] = Some x"
| "single _ = None"

text \<open>\<^verbatim>\<open>x || 0\<close> on a nullable number.\<close>

fun or_zero :: "int option \<Rightarrow> int" where
  "or_zero None = 0"
| "or_zero (Some d) = d"

text \<open>Truthiness of an optional number: absent, null and 0 are falsy.\<close>

fun truthy :: "int option \<Rightarrow> bool" where
  "truthy None = False"
| "truthy (Some d) = (d \<noteq> 0)"

text \<open>
  \<^verbatim>\<open>new Date(t).toISOString().split('T')[0]\<close>: the UTC calendar day of an instant,
  as the number of the day since the epoch.
\<close>

definition iso_date :: "instant \<Rightarrow> int" where
  "iso_date t = t div 86400000"

text \<open>
  \<^verbatim>\<open>Math.round((endTime.getTime() - startTime.getTime()) / (1000 * 60))\<close>:
  the nearest integer, a half rounded up.
\<close>

definition round_minutes :: "instant \<Rightarrow> instant \<Rightarrow> int" where
  "round_minutes startTime endTime = (endTime - startTime + 30000) div (1000 * 60)"

section \<open>auth-helpers.ts\<close>

definition isAdmin :: "Session option \<Rightarrow> bool" where
  "isAdmin session = (case session of None \<Rightarrow> False | Some s \<Rightarrow> user_role s = admin)"

definition isLearner :: "Session option \<Rightarrow> bool" where
  "isLearner session = (case session of None \<Rightarrow> False | Some s \<Rightarrow> user_role s = learner)"

definition isAuthenticated :: "Session option \<Rightarrow> bool" where
  "isAuthenticated session = (case session of None \<Rightarrow> False | Some s \<Rightarrow> True)"

text \<open>
  \<^verbatim>\<open>session || (await getServerSession())\<close>: the session passed in, and the server
  session (the second argument, the outcome of \<^verbatim>\<open>getServerSession()\<close>) when none is.
\<close>

definition currentSession :: "Session option \<Rightarrow> Session option promise \<Rightarrow> Session option promise" where
  "currentSession session serverSession =
     (case session of Some s \<Rightarrow> Resolved (Some s) | None \<Rightarrow> serverSession)"

definition canAccessResource :: "uuid \<Rightarrow> Session option \<Rightarrow> Session option promise \<Rightarrow> bool promise" where
  "canAccessResource resourceUserId session serverSession =
     (case currentSession session serverSession of
        Rejected \<Rightarrow> Rejected
      | Resolved cur \<Rightarrow>
          if \<not> isAuthenticated cur then Resolved False
          else if isAdmin cur then Resolved True
          else (case cur of
                  None \<Rightarrow> Rejected
                | Some s \<Rightarrow> Resolved (user_id s = resourceUserId)))"

text \<open>
  The enrollment lookup of \<^verbatim>\<open>canAccessCourse\<close> runs inside \<^verbatim>\<open>try\<close>: a store
  that throws (\<open>Rejected\<close>) gives \<open>false\<close>.
\<close>

definition canAccessCourse ::
  "uuid \<Rightarrow> Session option \<Rightarrow> Session option promise \<Rightarrow> Store promise \<Rightarrow> bool promise" where
  "canAccessCourse courseId session serverSession db =
     (case currentSession session serverSession of
        Rejected \<Rightarrow> Rejected
      | Resolved cur \<Rightarrow>
          if \<not> isAuthenticated cur then Resolved False
          else if isAdmin cur then Resolved True
          else (case cur of
                  None \<Rightarrow> Rejected
                | Some s \<Rightarrow>
                    (case db of
                       Rejected \<Rightarrow> Resolved False
                     | Resolved st \<Rightarrow>
                         Resolved (single (filter (\<lambda>e. enr_course_id e = courseId
                                     \<and> enr_learner_id e = user_id s) (enrollments st)) \<noteq> None))))"

text \<open>
  \<^verbatim>\<open>withAuth\<close>: a handler runs only for a caller with a session; a caller without
  one gets 401, and a session lookup that throws gives 500.
\<close>

definition withAuth ::
  "(Session \<Rightarrow> Store \<Rightarrow> (error + 'a) \<times> Store) \<Rightarrow> Session option promise \<Rightarrow> Store
     \<Rightarrow> (error + 'a) \<times> Store" where
  "withAuth handler serverSession st =
     (case serverSession of
        Rejected \<Rightarrow> (Inl InternalError, st)
      | Resolved session \<Rightarrow>
          (case session of
             None \<Rightarrow> (Inl Unauthorized, st)
           | Some s \<Rightarrow> handler s st))"

section \<open>validations.ts\<close>

text \<open>
  The request bodies after \<^verbatim>\<open>parse\<close>: an optional field is an option. The bounds
  of the schemas are the predicates below; the formats of identifiers, dates and
  date-times are in the types.
\<close>

definition percentageSchema :: "int \<Rightarrow> bool" where
  "percentageSchema p = (0 \<le> p \<and> p \<le> 100)"

definition understandingLevelSchema :: "int \<Rightarrow> bool" where
  "understandingLevelSchema n = (n = 1 \<or> n = 2 \<or> n = 3 \<or> n = 4 \<or> n = 5)"

definition durationSchema :: "int \<Rightarrow> bool" where
  "durationSchema d = (1 \<le> d \<and> d \<le> 1440)"

definition memoSchema :: "string \<Rightarrow> bool" where
  "memoSchema m = (length m \<le> 1000)"

fun optional :: "('a \<Rightarrow> bool) \<Rightarrow> 'a option \<Rightarrow> bool" where
  "optional P None = True"
| "optional P (Some x) = P x"

record EnrollmentCreate =
  ec_learner_id :: uuid
  ec_course_id :: uuid
  ec_due_date :: "string option"
  ec_status :: EnrollmentStatus

record EnrollmentUpdate =
  eu_progress_percentage :: "int option"
  eu_status :: "EnrollmentStatus option"
  eu_due_date :: "string option"
  eu_started_at :: "instant option"
  eu_completed_at :: "instant option"

definition enrollmentUpdateSchema :: "EnrollmentUpdate \<Rightarrow> bool" where
  "enrollmentUpdateSchema body = optional percentageSchema (eu_progress_percentage body)"

record LearningRecordCreate =
  lrc_enrollment_id :: uuid
  lrc_course_id :: uuid
  lrc_learner_id :: uuid
  lrc_session_start_time :: instant
  lrc_session_end_time :: "instant option"
  lrc_session_duration_minutes :: "int option"
  lrc_progress_percentage :: "int option"
  lrc_understanding_level :: "int option"
  lrc_learning_memo :: "string option"

definition learningRecordCreateSchema :: "LearningRecordCreate \<Rightarrow> bool" where
  "learningRecordCreateSchema body =
     (optional durationSchema (lrc_session_duration_minutes body)
      \<and> optional percentageSchema (lrc_progress_percentage body)
      \<and> optional understandingLevelSchema (lrc_understanding_level body)
      \<and> optional memoSchema (lrc_learning_memo body))"

record LearningRecordUpdate =
  lru_session_end_time :: "instant option"
  lru_session_duration_minutes :: "int option"
  lru_progress_percentage :: "int option"
  lru_understanding_level :: "int option"
  lru_learning_memo :: "string option"

definition learningRecordUpdateSchema :: "LearningRecordUpdate \<Rightarrow> bool" where
  "learningRecordUpdateSchema body =
     (optional durationSchema (lru_session_duration_minutes body)
      \<and> optional percentageSchema (lru_progress_percentage body)
      \<and> optional understandingLevelSchema (lru_understanding_level body)
      \<and> optional memoSchema (lru_learning_memo body))"

section \<open>Updates of rows\<close>

text \<open>
  The \<^verbatim>\<open>updateData\<close> object of an enrollment update: a key that is not set leaves
  the column as it is.
\<close>

record EnrollmentUpdateData =
  ud_progress_percentage :: "int option"
  ud_status :: "EnrollmentStatus option"
  ud_due_date :: "string option"
  ud_started_at :: "instant option"
  ud_completed_at :: "instant option"
  ud_updated_at :: "instant option"

definition emptyUpdateData :: "instant \<Rightarrow> EnrollmentUpdateData" where
  "emptyUpdateData now =
     \<lparr>ud_progress_percentage = None, ud_status = None, ud_due_date = None,
      ud_started_at = None, ud_completed_at = None, ud_updated_at = Some now\<rparr>"

fun orElse :: "'a option \<Rightarrow> 'a option \<Rightarrow> 'a option" where
  "orElse (Some v) old = Some v"
| "orElse None old = old"

definition update_enrollment :: "EnrollmentUpdateData \<Rightarrow> Enrollment \<Rightarrow> Enrollment" where
  "update_enrollment ud e =
     e\<lparr>enr_progress_percentage := orElse (ud_progress_percentage ud) (enr_progress_percentage e),
       enr_status := (case ud_status ud of None \<Rightarrow> enr_status e | Some s \<Rightarrow> s),
       enr_due_date := orElse (ud_due_date ud) (enr_due_date e),
       enr_started_at := orElse (ud_started_at ud) (enr_started_at e),
       enr_completed_at := orElse (ud_completed_at ud) (enr_completed_at e),
       enr_updated_at := orElse (ud_updated_at ud) (enr_updated_at e)\<rparr>"

text \<open>\<^verbatim>\<open>from("enrollments").update(updateData).eq("id", i)\<close>\<close>

definition update_enrollments :: "uuid \<Rightarrow> EnrollmentUpdateData \<Rightarrow> Store \<Rightarrow> Store" where
  "update_enrollments i ud st =
     st\<lparr>enrollments := map (\<lambda>e. if enr_id e = i then update_enrollment ud e else e) (enrollments st)\<rparr>"

record LearningRecordUpdateData =
  lud_session_end_time :: "instant option"
  lud_session_duration_minutes :: "int option"
  lud_cumulative_learning_minutes :: "int option"
  lud_progress_percentage :: "int option"
  lud_understanding_level :: "int option"
  lud_learning_memo :: "string option"
  lud_updated_at :: "instant option"

definition update_learning_record :: "LearningRecordUpdateData \<Rightarrow> LearningRecord \<Rightarrow> LearningRecord" where
  "update_learning_record ud r =
     r\<lparr>lr_session_end_time := orElse (lud_session_end_time ud) (lr_session_end_time r),
       lr_session_duration_minutes :=
         orElse (lud_session_duration_minutes ud) (lr_session_duration_minutes r),
       lr_cumulative_learning_minutes :=
         orElse (lud_cumulative_learning_minutes ud) (lr_cumulative_learning_minutes r),
       lr_progress_percentage := orElse (lud_progress_percentage ud) (lr_progress_percentage r),
       lr_understanding_level := orElse (lud_understanding_level ud) (lr_understanding_level r),
       lr_learning_memo := orElse (lud_learning_memo ud) (lr_learning_memo r),
       lr_updated_at := orElse (lud_updated_at ud) (lr_updated_at r)\<rparr>"

text \<open>\<^verbatim>\<open>from("learning_records").update(updateData).eq("id", i)\<close>\<close>

definition update_learning_records :: "uuid \<Rightarrow> LearningRecordUpdateData \<Rightarrow> Store \<Rightarrow> Store" where
  "update_learning_records i ud st =
     st\<lparr>learning_records :=
          map (\<lambda>r. if lr_id r = i then update_learning_record ud r else r) (learning_records st)\<rparr>"

text \<open>
  \<^verbatim>\<open>records.reduce((sum, record) => sum + (record.session_duration_minutes || 0), 0)\<close>
\<close>

definition totalMinutes :: "LearningRecord list \<Rightarrow> int" where
  "totalMinutes records = foldl (\<lambda>sum record. sum + or_zero (lr_session_duration_minutes record)) 0 records"

text \<open>
  \<^verbatim>\<open>.eq("enrollment_id", e).not("session_duration_minutes", "is", null)\<close>
\<close>

definition recordsWithDuration :: "uuid \<Rightarrow> LearningRecord list \<Rightarrow> LearningRecord list" where
  "recordsWithDuration e records =
     filter (\<lambda>r. lr_enrollment_id r = e \<and> lr_session_duration_minutes r \<noteq> None) records"

text \<open>
  \<^verbatim>\<open>.order("session_start_time", { ascending: false }).limit(1).single()\<close>: the row
  with the greatest start time (among equal start times, the first of the table).
\<close>

fun latestRecord :: "LearningRecord list \<Rightarrow> LearningRecord option" where
  "latestRecord [] = None"
| "latestRecord (r # rs) =
     (case latestRecord rs of
        None \<Rightarrow> Some r
      | Some m \<Rightarrow> if lr_session_start_time r < lr_session_start_time m then Some m else Some r)"

section \<open>api/enrollments/route.ts and api/enrollments/[id]/route.ts\<close>

text \<open>
  \<^verbatim>\<open>GET /api/enrollments/[id]\<close>: the query is on the id and, for a caller who is not
  an admin, on the caller's own \<^verbatim>\<open>learner_id\<close> too; no row gives 404.
\<close>

definition GET_enrollment :: "Session \<Rightarrow> uuid \<Rightarrow> Store \<Rightarrow> error + Enrollment" where
  "GET_enrollment session enrollmentId st =
     (let query = filter (\<lambda>e. enr_id e = enrollmentId) (enrollments st);
          query' = (if \<not> isAdmin (Some session)
                    then filter (\<lambda>e. enr_learner_id e = user_id session) query
                    else query)
      in case single query' of
           None \<Rightarrow> Inl NotFound
         | Some enrollment \<Rightarrow> Inr enrollment)"

text \<open>
  \<^verbatim>\<open>POST /api/enrollments\<close>. The identifier of the new row comes from the store
  (\<open>newId\<close>); the columns the insert does not name are null.
\<close>

definition POST_enrollment ::
  "Session \<Rightarrow> EnrollmentCreate \<Rightarrow> instant \<Rightarrow> uuid \<Rightarrow> Store \<Rightarrow> (error + Enrollment) \<times> Store" where
  "POST_enrollment session body now newId st =
     (if \<not> isAdmin (Some session) then (Inl Forbidden, st)
      else case single (filter (\<lambda>u. usr_id u = ec_learner_id body) (users st)) of
        None \<Rightarrow> (Inl LearnerNotFound, st)
      | Some lrn \<Rightarrow>
          if usr_role lrn \<noteq> learner then (Inl NotALearner, st)
          else case single (filter (\<lambda>c. crs_id c = ec_course_id body) (courses st)) of
            None \<Rightarrow> (Inl CourseNotFound, st)
          | Some course \<Rightarrow>
              if \<not> crs_is_active course then (Inl InactiveCourse, st)
              else case single (filter (\<lambda>e. enr_learner_id e = ec_learner_id body
                                   \<and> enr_course_id e = ec_course_id body) (enrollments st)) of
                Some existingEnrollment \<Rightarrow> (Inl DuplicateEnrollment, st)
              | None \<Rightarrow>
                  (let newEnrollment =
                     \<lparr>enr_id = newId,
                      enr_learner_id = ec_learner_id body,
                      enr_course_id = ec_course_id body,
                      enr_status = ec_status body,
                      enr_progress_percentage = None,
                      enr_assigned_by = Some (user_id session),
                      enr_assigned_at = Some now,
                      enr_started_at = None,
                      enr_completed_at = None,
                      enr_due_date = ec_due_date body,
                      enr_created_at = Some now,
                      enr_updated_at = Some now\<rparr>
                   in (Inr newEnrollment, st\<lparr>enrollments := enrollments st @ [newEnrollment]\<rparr>)))"

text \<open>The admin branch of \<^verbatim>\<open>PUT /api/enrollments/[id]\<close>: every field given is written.\<close>

definition adminUpdateData :: "EnrollmentUpdate \<Rightarrow> instant \<Rightarrow> EnrollmentUpdateData" where
  "adminUpdateData body now =
     (emptyUpdateData now)
       \<lparr>ud_progress_percentage := eu_progress_percentage body,
        ud_status := eu_status body,
        ud_due_date := eu_due_date body,
        ud_started_at := eu_started_at body,
        ud_completed_at := eu_completed_at body\<rparr>"

text \<open>
  The learner branch: the progress is written when given; a status is written only for
  \<open>assigned\<close> to \<open>in_progress\<close> and for \<open>in_progress\<close> to \<open>completed\<close> at 100 percent;
  then the two blocks on \<^verbatim>\<open>started_at\<close> and \<^verbatim>\<open>completed_at\<close>.
\<close>

definition learnerUpdateData :: "Enrollment \<Rightarrow> EnrollmentUpdate \<Rightarrow> instant \<Rightarrow> EnrollmentUpdateData" where
  "learnerUpdateData existingEnrollment body now =
     (let ud0 = (emptyUpdateData now)\<lparr>ud_progress_percentage := eu_progress_percentage body\<rparr>;
          ud1 = (case eu_status body of
                   None \<Rightarrow> ud0
                 | Some s \<Rightarrow>
                     if enr_status existingEnrollment = assigned \<and> s = in_progress
                     then ud0\<lparr>ud_status := Some s, ud_started_at := Some now\<rparr>
                     else if enr_status existingEnrollment = in_progress \<and> s = completed
                             \<and> (eu_progress_percentage body = Some 100
                                  \<or> enr_progress_percentage existingEnrollment = Some 100)
                     then ud0\<lparr>ud_status := Some s, ud_completed_at := Some now,
                              ud_progress_percentage := Some 100\<rparr>
                     else ud0);
          ud2 = (if eu_started_at body \<noteq> None \<and> enr_status existingEnrollment = assigned
                 then ud1\<lparr>ud_started_at := eu_started_at body, ud_status := Some in_progress\<rparr>
                 else ud1);
          ud3 = (if eu_completed_at body \<noteq> None \<and> eu_progress_percentage body = Some 100
                 then ud2\<lparr>ud_completed_at := eu_completed_at body, ud_status := Some completed,
                          ud_progress_percentage := Some 100\<rparr>
                 else ud2)
      in ud3)"

definition PUT_enrollment ::
  "Session \<Rightarrow> uuid \<Rightarrow> EnrollmentUpdate \<Rightarrow> instant \<Rightarrow> Store \<Rightarrow> (error + Enrollment) \<times> Store" where
  "PUT_enrollment session enrollmentId body now st =
     (if \<not> enrollmentUpdateSchema body then (Inl InvalidInput, st)
      else case single (filter (\<lambda>e. enr_id e = enrollmentId) (enrollments st)) of
        None \<Rightarrow> (Inl NotFound, st)
      | Some existingEnrollment \<Rightarrow>
          if \<not> isAdmin (Some session) \<and> enr_learner_id existingEnrollment \<noteq> user_id session
          then (Inl Forbidden, st)
          else
            (let updateData = (if isAdmin (Some session) then adminUpdateData body now
                               else learnerUpdateData existingEnrollment body now);
                 st' = update_enrollments enrollmentId updateData st
             in case single (filter (\<lambda>e. enr_id e = enrollmentId) (enrollments st')) of
                  None \<Rightarrow> (Inl InternalError, st')
                | Some updatedEnrollment \<Rightarrow> (Inr updatedEnrollment, st')))"

section \<open>api/learning-records/route.ts and api/learning-records/[id]/route.ts\<close>

text \<open>
  The session time of a create: the duration given, or, when none is given (or 0) and
  an end time is, the rounded difference of end and start.
\<close>

definition createDuration :: "LearningRecordCreate \<Rightarrow> int option" where
  "createDuration body =
     (case lrc_session_end_time body of
        Some endTime \<Rightarrow>
          if \<not> truthy (lrc_session_duration_minutes body)
          then Some (round_minutes (lrc_session_start_time body) endTime)
          else lrc_session_duration_minutes body
      | None \<Rightarrow> lrc_session_duration_minutes body)"

text \<open>
  The enrollment update of a create that carries a progress: the progress; for an
  \<open>assigned\<close> enrollment the start; at 100 percent the completion.
\<close>

definition createProgressUpdate :: "EnrollmentStatus \<Rightarrow> int \<Rightarrow> instant \<Rightarrow> EnrollmentUpdateData" where
  "createProgressUpdate status progress now =
     (let ud0 = (emptyUpdateData now)\<lparr>ud_progress_percentage := Some progress\<rparr>;
          ud1 = (if status = assigned
                 then ud0\<lparr>ud_status := Some in_progress, ud_started_at := Some now\<rparr>
                 else ud0);
          ud2 = (if progress = 100
                 then ud1\<lparr>ud_status := Some completed, ud_completed_at := Some now\<rparr>
                 else ud1)
      in ud2)"

definition POST_learning_record ::
  "Session \<Rightarrow> LearningRecordCreate \<Rightarrow> instant \<Rightarrow> uuid \<Rightarrow> Store
     \<Rightarrow> (error + LearningRecord) \<times> Store" where
  "POST_learning_record session body now newId st =
     (if \<not> learningRecordCreateSchema body then (Inl InvalidInput, st)
      else if \<not> isAdmin (Some session) \<and> lrc_learner_id body \<noteq> user_id session
      then (Inl Forbidden, st)
      else case single (filter (\<lambda>e. enr_id e = lrc_enrollment_id body
                           \<and> enr_learner_id e = lrc_learner_id body
                           \<and> enr_course_id e = lrc_course_id body) (enrollments st)) of
        None \<Rightarrow> (Inl NotFound, st)
      | Some enrollment \<Rightarrow>
          if enr_status enrollment = cancelled then (Inl CancelledEnrollment, st)
          else case single (filter (\<lambda>c. crs_id c = lrc_course_id body) (courses st)) of
            None \<Rightarrow> (Inl CourseNotFoundOrInactive, st)
          | Some course \<Rightarrow>
              if \<not> crs_is_active course then (Inl CourseNotFoundOrInactive, st)
              else
                (let sessionDurationMinutes = createDuration body;
                     existingRecords = recordsWithDuration (lrc_enrollment_id body) (learning_records st);
                     totalExistingMinutes = totalMinutes existingRecords;
                     cumulativeLearningMinutes = totalExistingMinutes + or_zero sessionDurationMinutes;
                     newLearningRecord =
                       \<lparr>lr_id = newId,
                        lr_enrollment_id = lrc_enrollment_id body,
                        lr_course_id = lrc_course_id body,
                        lr_learner_id = lrc_learner_id body,
                        lr_session_start_time = lrc_session_start_time body,
                        lr_session_end_time = lrc_session_end_time body,
                        lr_session_duration_minutes = sessionDurationMinutes,
                        lr_session_date = iso_date (lrc_session_start_time body),
                        lr_progress_percentage = lrc_progress_percentage body,
                        lr_understanding_level = lrc_understanding_level body,
                        lr_learning_memo = lrc_learning_memo body,
                        lr_cumulative_learning_minutes = Some cumulativeLearningMinutes,
                        lr_created_at = Some now,
                        lr_updated_at = Some now\<rparr>;
                     st1 = st\<lparr>learning_records := learning_records st @ [newLearningRecord]\<rparr>;
                     st2 = (case lrc_progress_percentage body of
                              None \<Rightarrow> st1
                            | Some progress \<Rightarrow>
                                update_enrollments (lrc_enrollment_id body)
                                  (createProgressUpdate (enr_status enrollment) progress now) st1)
                 in (Inr newLearningRecord, st2)))"

text \<open>
  The same-day window of update and delete: the UTC day of \<^verbatim>\<open>created_at\<close> (a null
  \<^verbatim>\<open>created_at\<close> reads as the epoch) against the UTC day of now.
\<close>

definition createdToday :: "LearningRecord \<Rightarrow> instant \<Rightarrow> bool" where
  "createdToday existingRecord now =
     (iso_date (or_zero (lr_created_at existingRecord)) = iso_date now)"

definition updateDuration :: "LearningRecord \<Rightarrow> LearningRecordUpdate \<Rightarrow> int option" where
  "updateDuration existingRecord body =
     (case lru_session_end_time body of
        Some endTime \<Rightarrow>
          if \<not> truthy (lru_session_duration_minutes body)
          then Some (round_minutes (lr_session_start_time existingRecord) endTime)
          else lru_session_duration_minutes body
      | None \<Rightarrow> lru_session_duration_minutes body)"

text \<open>
  The cumulative minutes of an update, recomputed only when the duration is given or
  derived and differs from the stored one: the other records' total plus the new
  duration.
\<close>

definition updateCumulative :: "LearningRecord \<Rightarrow> int option \<Rightarrow> LearningRecord list \<Rightarrow> int option" where
  "updateCumulative existingRecord sessionDurationMinutes records =
     (case sessionDurationMinutes of
        None \<Rightarrow> None
      | Some d \<Rightarrow>
          if Some d \<noteq> lr_session_duration_minutes existingRecord
          then Some (totalMinutes (recordsWithDuration (lr_enrollment_id existingRecord)
                        (filter (\<lambda>r. lr_id r \<noteq> lr_id existingRecord) records)) + d)
          else None)"

text \<open>
  The enrollment update of an update that carries a progress: the progress, and at 100
  percent the completion.
\<close>

definition updateProgressUpdate :: "int \<Rightarrow> instant \<Rightarrow> EnrollmentUpdateData" where
  "updateProgressUpdate progress now =
     (let ud0 = (emptyUpdateData now)\<lparr>ud_progress_percentage := Some progress\<rparr>;
          ud1 = (if progress = 100
                 then ud0\<lparr>ud_status := Some completed, ud_completed_at := Some now\<rparr>
                 else ud0)
      in ud1)"

definition PUT_learning_record ::
  "Session \<Rightarrow> uuid \<Rightarrow> LearningRecordUpdate \<Rightarrow> instant \<Rightarrow> Store
     \<Rightarrow> (error + LearningRecord) \<times> Store" where
  "PUT_learning_record session learningRecordId body now st =
     (if \<not> learningRecordUpdateSchema body then (Inl InvalidInput, st)
      else case single (filter (\<lambda>r. lr_id r = learningRecordId) (learning_records st)) of
        None \<Rightarrow> (Inl NotFound, st)
      | Some existingRecord \<Rightarrow>
          if \<not> isAdmin (Some session) \<and> lr_learner_id existingRecord \<noteq> user_id session
          then (Inl Forbidden, st)
          else if \<not> isAdmin (Some session) \<and> \<not> createdToday existingRecord now
          then (Inl StaleEditWindow, st)
          else
            (let sessionDurationMinutes = updateDuration existingRecord body;
                 cumulativeLearningMinutes =
                   updateCumulative existingRecord sessionDurationMinutes (learning_records st);
                 updateData =
                   \<lparr>lud_session_end_time = lru_session_end_time body,
                    lud_session_duration_minutes = sessionDurationMinutes,
                    lud_cumulative_learning_minutes = cumulativeLearningMinutes,
                    lud_progress_percentage = lru_progress_percentage body,
                    lud_understanding_level = lru_understanding_level body,
                    lud_learning_memo = lru_learning_memo body,
                    lud_updated_at = Some now\<rparr>;
                 st1 = update_learning_records learningRecordId updateData st;
                 st2 = (case lru_progress_percentage body of
                          None \<Rightarrow> st1
                        | Some progress \<Rightarrow>
                            update_enrollments (lr_enrollment_id existingRecord)
                              (updateProgressUpdate progress now) st1)
             in case single (filter (\<lambda>r. lr_id r = learningRecordId) (learning_records st1)) of
                  None \<Rightarrow> (Inl InternalError, st1)
                | Some updatedRecord \<Rightarrow> (Inr updatedRecord, st2)))"

text \<open>
  \<^verbatim>\<open>DELETE /api/learning-records/[id]\<close>: after the delete, and only when the deleted
  record had a duration other than 0, the total of the remaining records is written on
  the latest remaining record of the enrollment.
\<close>

definition DELETE_learning_record ::
  "Session \<Rightarrow> uuid \<Rightarrow> instant \<Rightarrow> Store \<Rightarrow> (error + unit) \<times> Store" where
  "DELETE_learning_record session learningRecordId now st =
     (case single (filter (\<lambda>r. lr_id r = learningRecordId) (learning_records st)) of
        None \<Rightarrow> (Inl NotFound, st)
      | Some existingRecord \<Rightarrow>
          if \<not> isAdmin (Some session) \<and> lr_learner_id existingRecord \<noteq> user_id session
          then (Inl Forbidden, st)
          else if \<not> isAdmin (Some session) \<and> \<not> createdToday existingRecord now
          then (Inl StaleEditWindow, st)
          else
            (let st1 = st\<lparr>learning_records :=
                            filter (\<lambda>r. lr_id r \<noteq> learningRecordId) (learning_records st)\<rparr>;
                 st2 =
                   (if truthy (lr_session_duration_minutes existingRecord)
                    then
                      (let remainingRecords =
                             recordsWithDuration (lr_enrollment_id existingRecord) (learning_records st1);
                           newCumulativeMinutes = totalMinutes remainingRecords
                       in if remainingRecords \<noteq> []
                          then (case latestRecord (filter (\<lambda>r. lr_enrollment_id r
                                         = lr_enrollment_id existingRecord) (learning_records st1)) of
                                  None \<Rightarrow> st1
                                | Some latest \<Rightarrow>
                                    st1\<lparr>learning_records :=
                                          map (\<lambda>r. if lr_id r = lr_id latest
                                                    then r\<lparr>lr_cumulative_learning_minutes :=
                                                              Some newCumulativeMinutes\<rparr>
                                                    else r) (learning_records st1)\<rparr>)
                          else st1)
                    else st1)
             in (Inr (), st2)))"

section \<open>The reconciliation of the cumulative minutes\<close>

text \<open>
  The cumulative minutes on the latest record of an enrollment (by session start time)
  are the total of the session minutes of the enrollment's records. An enrollment
  without a record is reconciled.
\<close>

definition reconciled :: "uuid \<Rightarrow> Store \<Rightarrow> bool" where
  "reconciled e st =
     (let records = filter (\<lambda>r. lr_enrollment_id r = e) (learning_records st)
      in case latestRecord records of
           None \<Rightarrow> True
         | Some latest \<Rightarrow> lr_cumulative_learning_minutes latest = Some (totalMinutes records))"

text \<open>
  An enrollment row before and after a write: when the write completes the enrollment,
  the row has 100 percent and a completion time.
\<close>

definition completion_ok :: "Enrollment \<Rightarrow> Enrollment \<Rightarrow> bool" where
  "completion_ok e e' =
     (if enr_status e \<noteq> completed \<and> enr_status e' = completed
      then enr_progress_percentage e' = Some 100 \<and> enr_completed_at e' \<noteq> None
      else True)"

section \<open>A sample organisation\<close>

text \<open>
  One admin, two learners and one active course; the requests used in the scenarios
  below. Day 0 is 1970-01-01; an hour is 3600000 ms and a day 86400000 ms.
\<close>

definition adminA :: Session where
  "adminA = \<lparr>user_id = ''A'', user_role = admin\<rparr>"

definition learnerL :: Session where
  "learnerL = \<lparr>user_id = ''L'', user_role = learner\<rparr>"

definition learnerM :: Session where
  "learnerM = \<lparr>user_id = ''M'', user_role = learner\<rparr>"

definition sampleStore :: Store where
  "sampleStore =
     \<lparr>users = [\<lparr>usr_id = ''A'', usr_role = admin\<rparr>, \<lparr>usr_id = ''L'', usr_role = learner\<rparr>,
               \<lparr>usr_id = ''M'', usr_role = learner\<rparr>],
      courses = [\<lparr>crs_id = ''C'', crs_is_active = True\<rparr>],
      enrollments = [],
      learning_records = []\<rparr>"

definition assignRequest :: "EnrollmentStatus \<Rightarrow> EnrollmentCreate" where
  "assignRequest s = \<lparr>ec_learner_id = ''L'', ec_course_id = ''C'', ec_due_date = None, ec_status = s\<rparr>"

definition progressRequest :: "EnrollmentStatus option \<Rightarrow> int option \<Rightarrow> EnrollmentUpdate" where
  "progressRequest s p =
     \<lparr>eu_progress_percentage = p, eu_status = s, eu_due_date = None,
      eu_started_at = None, eu_completed_at = None\<rparr>"

definition sessionRequest :: "instant \<Rightarrow> instant option \<Rightarrow> int option \<Rightarrow> int option \<Rightarrow> LearningRecordCreate" where
  "sessionRequest startTime endTime minutes progress =
     \<lparr>lrc_enrollment_id = ''E'', lrc_course_id = ''C'', lrc_learner_id = ''L'',
      lrc_session_start_time = startTime, lrc_session_end_time = endTime,
      lrc_session_duration_minutes = minutes, lrc_progress_percentage = progress,
      lrc_understanding_level = None, lrc_learning_memo = None\<rparr>"

definition sessionPatch :: "int option \<Rightarrow> int option \<Rightarrow> LearningRecordUpdate" where
  "sessionPatch minutes progress =
     \<lparr>lru_session_end_time = None, lru_session_duration_minutes = minutes,
      lru_progress_percentage = progress, lru_understanding_level = None,
      lru_learning_memo = None\<rparr>"

text \<open>The admin assigns the course to learner L at instant 1000.\<close>

definition enrolledStore :: Store where
  "enrolledStore = snd (POST_enrollment adminA (assignRequest assigned) 1000 ''E'' sampleStore)"

text \<open>L logs a first session of 30 minutes at 40 percent, at instant 2000.\<close>

definition startedStore :: Store where
  "startedStore =
     snd (POST_learning_record learnerL (sessionRequest 0 None (Some 30) (Some 40)) 2000 ''R1''
            enrolledStore)"

text \<open>L logs a second, later session of 20 minutes, at instant 3000.\<close>

definition twoSessionsStore :: Store where
  "twoSessionsStore =
     snd (POST_learning_record learnerL (sessionRequest 3600000 None (Some 20) None) 3000 ''R2''
            startedStore)"

text \<open>L logs the first session without a progress: the enrollment stays \<open>assigned\<close>.\<close>

definition unstartedStore :: Store where
  "unstartedStore =
     snd (POST_learning_record learnerL (sessionRequest 0 None (Some 30) None) 2000 ''R1''
            enrolledStore)"

text \<open>After the first session, the admin cancels the enrollment at instant 2500.\<close>

definition cancelledStore :: Store where
  "cancelledStore =
     snd (PUT_enrollment adminA ''E'' (progressRequest (Some cancelled) None) 2500 startedStore)"

text \<open>After the first session, L logs a session that reaches 100 percent.\<close>

definition completedStore :: Store where
  "completedStore =
     snd (POST_learning_record learnerL (sessionRequest 3600000 None (Some 20) (Some 100)) 3000 ''R2''
            startedStore)"

text \<open>The completion invariant of one enrollment row.\<close>

definition completion_invariant :: "Enrollment \<Rightarrow> bool" where
  "completion_invariant e =
     (if enr_status e = completed
      then enr_progress_percentage e = Some 100 \<and> enr_completed_at e \<noteq> None
      else True)"

section \<open>Lemmas on the helpers\<close>

lemma single_map: "single (map f xs) = map_option f (single xs)"
  by (cases xs rule: single.cases) simp_all

lemma filter_none: "(\<forall>x\<in>set xs. \<not> P x) \<Longrightarrow> filter P xs = []"
  by (induction xs) auto

lemma foldl_plus_sum_list:
  "foldl (\<lambda>sum record. sum + f record) a xs = a + sum_list (map f xs)"
  for a :: int
  by (induction xs arbitrary: a) simp_all

lemma totalMinutes_sum_list:
  "totalMinutes records = (\<Sum>r\<leftarrow>records. or_zero (lr_session_duration_minutes r))"
  by (simp add: totalMinutes_def foldl_plus_sum_list)

lemma totalMinutes_recordsWithDuration:
  "totalMinutes (recordsWithDuration e records)
     = (\<Sum>r\<leftarrow>filter (\<lambda>r. lr_enrollment_id r = e) records. or_zero (lr_session_duration_minutes r))"
  unfolding totalMinutes_sum_list recordsWithDuration_def
  by (induction records) auto

lemma filter_id_update_learning_records:
  "filter (\<lambda>r. lr_id r = i) (learning_records (update_learning_records i ud st))
     = map (update_learning_record ud) (filter (\<lambda>r. lr_id r = i) (learning_records st))"
  unfolding update_learning_records_def
  by (induction "learning_records st" arbitrary: st)
     (auto simp: update_learning_record_def filter_map comp_def intro!: map_cong filter_cong)

lemma filter_id_update_enrollments:
  "filter (\<lambda>e. enr_id e = i) (enrollments (update_enrollments i ud st))
     = map (update_enrollment ud) (filter (\<lambda>e. enr_id e = i) (enrollments st))"
  unfolding update_enrollments_def
  by (induction "enrollments st" arbitrary: st)
     (auto simp: update_enrollment_def filter_map comp_def intro!: map_cong filter_cong)

lemma learning_records_update_enrollments:
  "learning_records (update_enrollments i ud st) = learning_records st"
  by (simp add: update_enrollments_def)

section \<open>The scenarios, evaluated\<close>

lemmas sample_defs = adminA_def learnerL_def learnerM_def sampleStore_def assignRequest_def
  progressRequest_def sessionRequest_def sessionPatch_def

lemmas handler_defs = POST_enrollment_def PUT_enrollment_def POST_learning_record_def
  PUT_learning_record_def DELETE_learning_record_def GET_enrollment_def
  isAdmin_def Let_def update_enrollments_def update_enrollment_def update_learning_records_def
  update_learning_record_def emptyUpdateData_def createProgressUpdate_def updateProgressUpdate_def
  learnerUpdateData_def adminUpdateData_def createDuration_def updateDuration_def updateCumulative_def
  totalMinutes_def recordsWithDuration_def createdToday_def iso_date_def round_minutes_def
  learningRecordCreateSchema_def learningRecordUpdateSchema_def enrollmentUpdateSchema_def
  percentageSchema_def durationSchema_def understandingLevelSchema_def memoSchema_def

lemma enrolledStore_eq:
  "enrolledStore =
     sampleStore\<lparr>enrollments :=
       [\<lparr>enr_id = ''E'', enr_learner_id = ''L'', enr_course_id = ''C'',
         enr_status = assigned, enr_progress_percentage = None,
         enr_assigned_by = Some ''A'', enr_assigned_at = Some 1000,
         enr_started_at = None, enr_completed_at = None,
         enr_due_date = None, enr_created_at = Some 1000,
         enr_updated_at = Some 1000\<rparr>]\<rparr>"
  by (simp add: enrolledStore_def sample_defs handler_defs)

lemma startedStore_eq:
  "startedStore =
     sampleStore\<lparr>enrollments :=
       [\<lparr>enr_id = ''E'', enr_learner_id = ''L'', enr_course_id = ''C'',
         enr_status = in_progress, enr_progress_percentage = Some 40,
         enr_assigned_by = Some ''A'', enr_assigned_at = Some 1000,
         enr_started_at = Some 2000, enr_completed_at = None,
         enr_due_date = None, enr_created_at = Some 1000,
         enr_updated_at = Some 2000\<rparr>],
      learning_records :=
       [\<lparr>lr_id = ''R1'', lr_enrollment_id = ''E'', lr_course_id = ''C'',
         lr_learner_id = ''L'', lr_session_start_time = 0,
         lr_session_end_time = None, lr_session_duration_minutes = Some 30,
         lr_session_date = 0, lr_progress_percentage = Some 40,
         lr_understanding_level = None, lr_learning_memo = None,
         lr_cumulative_learning_minutes = Some 30,
         lr_created_at = Some 2000, lr_updated_at = Some 2000\<rparr>]\<rparr>"
  by (simp add: startedStore_def enrolledStore_eq sample_defs handler_defs)

lemma twoSessionsStore_eq:
  "twoSessionsStore =
     startedStore\<lparr>learning_records := learning_records startedStore @
       [\<lparr>lr_id = ''R2'', lr_enrollment_id = ''E'', lr_course_id = ''C'',
         lr_learner_id = ''L'', lr_session_start_time = 3600000,
         lr_session_end_time = None, lr_session_duration_minutes = Some 20,
         lr_session_date = 0, lr_progress_percentage = None,
         lr_understanding_level = None, lr_learning_memo = None,
         lr_cumulative_learning_minutes = Some 50,
         lr_created_at = Some 3000, lr_updated_at = Some 3000\<rparr>]\<rparr>"
  by (simp add: twoSessionsStore_def startedStore_eq sample_defs handler_defs)

lemma unstartedStore_eq:
  "unstartedStore =
     enrolledStore\<lparr>learning_records :=
       [\<lparr>lr_id = ''R1'', lr_enrollment_id = ''E'', lr_course_id = ''C'',
         lr_learner_id = ''L'', lr_session_start_time = 0,
         lr_session_end_time = None, lr_session_duration_minutes = Some 30,
         lr_session_date = 0, lr_progress_percentage = None,
         lr_understanding_level = None, lr_learning_memo = None,
         lr_cumulative_learning_minutes = Some 30,
         lr_created_at = Some 2000, lr_updated_at = Some 2000\<rparr>]\<rparr>"
  by (simp add: unstartedStore_def enrolledStore_eq sample_defs handler_defs)

lemma cancelledStore_eq:
  "cancelledStore =
     startedStore\<lparr>enrollments :=
       [\<lparr>enr_id = ''E'', enr_learner_id = ''L'', enr_course_id = ''C'',
         enr_status = cancelled, enr_progress_percentage = Some 40,
         enr_assigned_by = Some ''A'', enr_assigned_at = Some 1000,
         enr_started_at = Some 2000, enr_completed_at = None,
         enr_due_date = None, enr_created_at = Some 1000,
         enr_updated_at = Some 2500\<rparr>]\<rparr>"
  by (simp add: cancelledStore_def startedStore_eq sample_defs handler_defs)

lemma completedStore_eq:
  "completedStore =
     startedStore\<lparr>enrollments :=
       [\<lparr>enr_id = ''E'', enr_learner_id = ''L'', enr_course_id = ''C'',
         enr_status = completed, enr_progress_percentage = Some 100,
         enr_assigned_by = Some ''A'', enr_assigned_at = Some 1000,
         enr_started_at = Some 2000, enr_completed_at = Some 3000,
         enr_due_date = None, enr_created_at = Some 1000,
         enr_updated_at = Some 3000\<rparr>],
      learning_records := learning_records startedStore @
       [\<lparr>lr_id = ''R2'', lr_enrollment_id = ''E'', lr_course_id = ''C'',
         lr_learner_id = ''L'', lr_session_start_time = 3600000,
         lr_session_end_time = None, lr_session_duration_minutes = Some 20,
         lr_session_date = 0, lr_progress_percentage = Some 100,
         lr_understanding_level = None, lr_learning_memo = None,
         lr_cumulative_learning_minutes = Some 50,
         lr_created_at = Some 3000, lr_updated_at = Some 3000\<rparr>]\<rparr>"
  by (simp add: completedStore_def startedStore_eq sample_defs handler_defs)

lemmas store_eqs = enrolledStore_eq startedStore_eq twoSessionsStore_eq unstartedStore_eq
  cancelledStore_eq completedStore_eq

section \<open>Fail-closed access for callers without a session\<close>

text \<open>
  C9. For a caller without a session (none passed in and none on the server, so that
  the current session resolves to no session), \<open>canAccessResource\<close> and
  \<open>canAccessCourse\<close> return false, for every owner id, every course id and every state
  of the store, and they do not throw.
\<close>

theorem unauthenticated_access_denied:
  assumes "currentSession session serverSession = Resolved cur"
    and "\<not> isAuthenticated cur"
  shows "canAccessResource resourceUserId session serverSession = Resolved False
       \<and> canAccessCourse courseId session serverSession db = Resolved False"
  using assms by (simp add: canAccessResource_def canAccessCourse_def)

theorem unauthenticated_access_denied_witness:
  "currentSession None (Resolved None) = Resolved None
   \<and> \<not> isAuthenticated None
   \<and> canAccessResource ''u1'' None (Resolved None) = Resolved False
   \<and> canAccessCourse ''c1'' None (Resolved None) Rejected = Resolved False"
  using unauthenticated_access_denied [of None "Resolved None" None "''u1''" "''c1''" Rejected]
  by (simp add: currentSession_def isAuthenticated_def)

section \<open>The same-day window\<close>

text \<open>
  C5. For a learning record created on another calendar day than today, update and
  delete by the learner who owns it fail with the stale-edit-window response and leave
  the store as it was, and the same update and delete by an admin succeed: the admin's
  update answers with the record patched by the request and writes that patch on the
  record of the table (every other record as it was), and the admin's delete removes
  the record and no other.
\<close>

theorem stale_edit_window:
  assumes "single (filter (\<lambda>r. lr_id r = i) (learning_records st)) = Some existingRecord"
    and "\<not> createdToday existingRecord now"
    and "learningRecordUpdateSchema body"
    and "user_role owner = learner" and "user_id owner = lr_learner_id existingRecord"
    and "user_role adm = admin"
  shows "PUT_learning_record owner i body now st = (Inl StaleEditWindow, st)
       \<and> DELETE_learning_record owner i now st = (Inl StaleEditWindow, st)
       \<and> (let updateData =
                 \<lparr>lud_session_end_time = lru_session_end_time body,
                  lud_session_duration_minutes = updateDuration existingRecord body,
                  lud_cumulative_learning_minutes =
                    updateCumulative existingRecord (updateDuration existingRecord body)
                      (learning_records st),
                  lud_progress_percentage = lru_progress_percentage body,
                  lud_understanding_level = lru_understanding_level body,
                  lud_learning_memo = lru_learning_memo body,
                  lud_updated_at = Some now\<rparr>
            in fst (PUT_learning_record adm i body now st)
                 = Inr (update_learning_record updateData existingRecord)
             \<and> learning_records (snd (PUT_learning_record adm i body now st))
                 = map (\<lambda>r. if lr_id r = i then update_learning_record updateData r else r)
                     (learning_records st))
       \<and> fst (DELETE_learning_record adm i now st) = Inr ()
       \<and> filter (\<lambda>r. lr_id r = i) (learning_records (snd (DELETE_learning_record adm i now st))) = []
       \<and> map lr_id (learning_records (snd (DELETE_learning_record adm i now st)))
           = map lr_id (filter (\<lambda>r. lr_id r \<noteq> i) (learning_records st))"
proof -
  have "PUT_learning_record owner i body now st = (Inl StaleEditWindow, st)"
    using assms by (simp add: PUT_learning_record_def isAdmin_def)
  moreover have "DELETE_learning_record owner i now st = (Inl StaleEditWindow, st)"
    using assms by (simp add: DELETE_learning_record_def isAdmin_def)
  moreover have "fst (PUT_learning_record adm i body now st)
        = Inr (update_learning_record
                \<lparr>lud_session_end_time = lru_session_end_time body,
                 lud_session_duration_minutes = updateDuration existingRecord body,
                 lud_cumulative_learning_minutes =
                   updateCumulative existingRecord (updateDuration existingRecord body)
                     (learning_records st),
                 lud_progress_percentage = lru_progress_percentage body,
                 lud_understanding_level = lru_understanding_level body,
                 lud_learning_memo = lru_learning_memo body,
                 lud_updated_at = Some now\<rparr> existingRecord)"
    using assms
    by (simp add: PUT_learning_record_def isAdmin_def Let_def
          filter_id_update_learning_records single_map)
  moreover have "learning_records (snd (PUT_learning_record adm i body now st))
        = map (\<lambda>r. if lr_id r = i
                    then update_learning_record
                \<lparr>lud_session_end_time = lru_session_end_time body,
                 lud_session_duration_minutes = updateDuration existingRecord body,
                 lud_cumulative_learning_minutes =
                   updateCumulative existingRecord (updateDuration existingRecord body)
                     (learning_records st),
                 lud_progress_percentage = lru_progress_percentage body,
                 lud_understanding_level = lru_understanding_level body,
                 lud_learning_memo = lru_learning_memo body,
                 lud_updated_at = Some now\<rparr> r
                    else r) (learning_records st)"
    using assms
    by (cases "lru_progress_percentage body")
       (simp_all add: PUT_learning_record_def isAdmin_def Let_def
          filter_id_update_learning_records single_map learning_records_update_enrollments,
        simp_all add: update_learning_records_def)
  moreover have "fst (DELETE_learning_record adm i now st) = Inr ()"
    using assms by (simp add: DELETE_learning_record_def isAdmin_def Let_def)
  moreover have "filter (\<lambda>r. lr_id r = i)
      (learning_records (snd (DELETE_learning_record adm i now st))) = []"
    using assms
    by (auto simp: DELETE_learning_record_def isAdmin_def Let_def filter_map comp_def
             split: option.splits intro!: filter_none)
  moreover have "map lr_id (learning_records (snd (DELETE_learning_record adm i now st)))
           = map lr_id (filter (\<lambda>r. lr_id r \<noteq> i) (learning_records st))"
    using assms
    by (auto simp: DELETE_learning_record_def isAdmin_def Let_def comp_def
             split: option.splits intro!: map_cong)
  ultimately show ?thesis by (simp add: Let_def)
qed

theorem stale_edit_window_witness:
  "PUT_learning_record learnerL ''R1'' (sessionPatch (Some 45) None) 86400000 twoSessionsStore
     = (Inl StaleEditWindow, twoSessionsStore)
   \<and> DELETE_learning_record learnerL ''R1'' 86400000 twoSessionsStore
     = (Inl StaleEditWindow, twoSessionsStore)
   \<and> map lr_session_duration_minutes
        (learning_records (snd (PUT_learning_record adminA ''R1'' (sessionPatch (Some 45) None)
                                  86400000 twoSessionsStore)))
       = [Some 45, Some 20]
   \<and> map lr_cumulative_learning_minutes
        (learning_records (snd (PUT_learning_record adminA ''R1'' (sessionPatch (Some 45) None)
                                  86400000 twoSessionsStore)))
       = [Some 65, Some 50]
   \<and> map lr_updated_at
        (learning_records (snd (PUT_learning_record adminA ''R1'' (sessionPatch (Some 45) None)
                                  86400000 twoSessionsStore)))
       = [Some 86400000, Some 3000]
   \<and> fst (DELETE_learning_record adminA ''R1'' 86400000 twoSessionsStore) = Inr ()
   \<and> map lr_id (learning_records (snd (DELETE_learning_record adminA ''R1'' 86400000 twoSessionsStore)))
       = [''R2'']"
proof -
  let ?r1 = "\<lparr>lr_id = ''R1'', lr_enrollment_id = ''E'', lr_course_id = ''C'',
         lr_learner_id = ''L'', lr_session_start_time = 0,
         lr_session_end_time = None, lr_session_duration_minutes = Some 30,
         lr_session_date = 0, lr_progress_percentage = Some 40,
         lr_understanding_level = None, lr_learning_memo = None,
         lr_cumulative_learning_minutes = Some 30,
         lr_created_at = Some 2000, lr_updated_at = Some 2000\<rparr>"
  have a: "single (filter (\<lambda>r. lr_id r = ''R1'') (learning_records twoSessionsStore)) = Some ?r1"
    by (simp add: store_eqs sample_defs)
  have b: "\<not> createdToday ?r1 86400000"
    by (simp add: createdToday_def iso_date_def)
  have c: "learningRecordUpdateSchema (sessionPatch (Some 45) None)"
    by (simp add: sample_defs learningRecordUpdateSchema_def durationSchema_def)
  have d: "user_role learnerL = learner" "user_id learnerL = lr_learner_id ?r1"
    "user_role adminA = admin"
    by (simp_all add: sample_defs)
  have recs: "learning_records twoSessionsStore =
       [?r1,
        \<lparr>lr_id = ''R2'', lr_enrollment_id = ''E'', lr_course_id = ''C'',
         lr_learner_id = ''L'', lr_session_start_time = 3600000,
         lr_session_end_time = None, lr_session_duration_minutes = Some 20,
         lr_session_date = 0, lr_progress_percentage = None,
         lr_understanding_level = None, lr_learning_memo = None,
         lr_cumulative_learning_minutes = Some 50,
         lr_created_at = Some 3000, lr_updated_at = Some 3000\<rparr>]"
    by (simp add: store_eqs sample_defs)
  show ?thesis
    using stale_edit_window [OF a b c d]
    by (simp add: Let_def recs sessionPatch_def update_learning_record_def updateDuration_def
          updateCumulative_def totalMinutes_def recordsWithDuration_def)
qed

section \<open>Reading an enrollment\<close>

text \<open>
  C10. For a learner and an enrollment id the learner does not own, the read of the
  enrollment answers not found, and so does the read in the store from which every
  enrollment of that id is removed: what the learner observes does not depend on whether
  another learner's enrollment of that id exists.
\<close>

theorem get_enrollment_not_owner:
  assumes "user_role session = learner"
    and "\<forall>e\<in>set (enrollments st). enr_id e = i \<longrightarrow> enr_learner_id e \<noteq> user_id session"
  shows "GET_enrollment session i st = Inl NotFound
       \<and> GET_enrollment session i (st\<lparr>enrollments := filter (\<lambda>e. enr_id e \<noteq> i) (enrollments st)\<rparr>)
           = Inl NotFound"
proof -
  have "filter (\<lambda>e. enr_learner_id e = user_id session)
          (filter (\<lambda>e. enr_id e = i) (enrollments st)) = []"
    using assms(2) by (intro filter_none) auto
  moreover have "filter (\<lambda>e. enr_id e = i) (filter (\<lambda>e. enr_id e \<noteq> i) (enrollments st)) = []"
    by (intro filter_none) auto
  ultimately show ?thesis
    using assms(1) by (simp add: GET_enrollment_def isAdmin_def Let_def)
qed

theorem get_enrollment_not_owner_witness:
  "GET_enrollment learnerM ''E'' enrolledStore = Inl NotFound
   \<and> GET_enrollment learnerM ''E''
        (enrolledStore\<lparr>enrollments := filter (\<lambda>e. enr_id e \<noteq> ''E'') (enrollments enrolledStore)\<rparr>)
      = Inl NotFound
   \<and> \<not> isl (GET_enrollment learnerL ''E'' enrolledStore)"
proof -
  have a: "user_role learnerM = learner"
    by (simp add: sample_defs)
  have b: "\<forall>e\<in>set (enrollments enrolledStore). enr_id e = ''E'' \<longrightarrow> enr_learner_id e \<noteq> user_id learnerM"
    by (simp add: store_eqs sample_defs)
  have c: "\<not> isl (GET_enrollment learnerL ''E'' enrolledStore)"
    by (simp add: store_eqs sample_defs handler_defs)
  show ?thesis
    using get_enrollment_not_owner [OF a b] c by simp
qed

section \<open>Cumulative minutes\<close>

text \<open>
  C4. For every successful create of a learning record, the cumulative minutes written
  on the new record are the sum of the session minutes of the records the enrollment
  had before (a record without a duration counts 0) plus the new record's own session
  minutes. The record returned is the record written: the table after the create is the
  table before with that record appended, under the new identifier, for the enrollment
  of the request and with the session minutes given or derived.
\<close>

theorem create_cumulative_is_running_total:
  assumes "POST_learning_record session body now newId st = (Inr r, st')"
  shows "lr_cumulative_learning_minutes r
           = Some ((\<Sum>x\<leftarrow>filter (\<lambda>x. lr_enrollment_id x = lr_enrollment_id r) (learning_records st).
                      or_zero (lr_session_duration_minutes x))
                   + or_zero (lr_session_duration_minutes r))
       \<and> learning_records st' = learning_records st @ [r]
       \<and> lr_id r = newId
       \<and> lr_enrollment_id r = lrc_enrollment_id body
       \<and> lr_session_duration_minutes r = createDuration body"
  using assms
  by (auto simp: POST_learning_record_def Let_def totalMinutes_recordsWithDuration
           learning_records_update_enrollments
           split: if_splits option.splits)

theorem create_cumulative_is_running_total_witness:
  "lr_cumulative_learning_minutes
     (projr (fst (POST_learning_record learnerL (sessionRequest 3600000 None (Some 20) None) 3000 ''R2''
                    startedStore)))
   = Some 50
   \<and> learning_records
       (snd (POST_learning_record learnerL (sessionRequest 3600000 None (Some 20) None) 3000 ''R2''
               startedStore))
     = learning_records startedStore
       @ [projr (fst (POST_learning_record learnerL (sessionRequest 3600000 None (Some 20) None) 3000
                        ''R2'' startedStore))]"
proof -
  let ?res = "POST_learning_record learnerL (sessionRequest 3600000 None (Some 20) None) 3000 ''R2''
                startedStore"
  have ok: "\<not> isl (fst ?res)"
    by (simp add: store_eqs sample_defs handler_defs)
  then have eq: "?res = (Inr (projr (fst ?res)), snd ?res)"
    by (cases "fst ?res") (simp_all add: prod_eq_iff)
  have before: "learning_records startedStore =
       [\<lparr>lr_id = ''R1'', lr_enrollment_id = ''E'', lr_course_id = ''C'',
         lr_learner_id = ''L'', lr_session_start_time = 0,
         lr_session_end_time = None, lr_session_duration_minutes = Some 30,
         lr_session_date = 0, lr_progress_percentage = Some 40,
         lr_understanding_level = None, lr_learning_memo = None,
         lr_cumulative_learning_minutes = Some 30,
         lr_created_at = Some 2000, lr_updated_at = Some 2000\<rparr>]"
    by (simp add: store_eqs sample_defs)
  have dur: "createDuration (sessionRequest 3600000 None (Some 20) None) = Some 20"
    "lrc_enrollment_id (sessionRequest 3600000 None (Some 20) None) = ''E''"
    by (simp_all add: createDuration_def sample_defs)
  show ?thesis
    using create_cumulative_is_running_total [OF eq] before dur by simp
qed

text \<open>
  C1. The reconciliation invariant: after any sequence of creates, updates and deletes
  of learning records, the cumulative minutes on the latest record of an enrollment are
  the sum of the session minutes of its records. The code breaks it: learner L logs a
  session of 30 minutes and a later one of 20 (the latest record carries 50, the sum),
  then corrects the first session to 40 minutes. The update writes the new total, 60, on
  the updated record only; the latest record still carries 50.
\<close>

theorem update_breaks_reconciliation:
  "reconciled ''E'' twoSessionsStore
   \<and> \<not> isl (fst (PUT_learning_record learnerL ''R1'' (sessionPatch (Some 40) None) 4000 twoSessionsStore))
   \<and> map (\<lambda>r. (lr_id r, lr_session_start_time r, lr_session_duration_minutes r,
                 lr_cumulative_learning_minutes r))
        (learning_records
           (snd (PUT_learning_record learnerL ''R1'' (sessionPatch (Some 40) None) 4000 twoSessionsStore)))
       = [(''R1'', 0, Some 40, Some 60), (''R2'', 3600000, Some 20, Some 50)]
   \<and> \<not> reconciled ''E''
         (snd (PUT_learning_record learnerL ''R1'' (sessionPatch (Some 40) None) 4000 twoSessionsStore))"
  by (simp add: reconciled_def store_eqs sample_defs handler_defs)

section \<open>Session minutes derived from the end time\<close>

text \<open>
  C6. A create or update whose session minutes are derived from an end time before
  the start time is to fail and write nothing. The code has no such check: learner L
  logs a session that starts at 02:00 and ends at 01:00, and the record is stored with
  \<open>- 60\<close> session minutes and a cumulative total lowered to \<open>- 30\<close>; an update with an
  end time before the start stores \<open>- 60\<close> in the same way.
\<close>

theorem negative_duration_is_stored:
  "learningRecordCreateSchema (sessionRequest 7200000 (Some 3600000) None None)
   \<and> \<not> isl (fst (POST_learning_record learnerL (sessionRequest 7200000 (Some 3600000) None None)
                     3000 ''R2'' startedStore))
   \<and> map (\<lambda>r. (lr_id r, lr_session_duration_minutes r, lr_cumulative_learning_minutes r))
        (learning_records
           (snd (POST_learning_record learnerL (sessionRequest 7200000 (Some 3600000) None None)
                   3000 ''R2'' startedStore)))
       = [(''R1'', Some 30, Some 30), (''R2'', Some (- 60), Some (- 30))]
   \<and> map (\<lambda>r. (lr_id r, lr_session_duration_minutes r, lr_cumulative_learning_minutes r))
        (learning_records
           (snd (PUT_learning_record learnerL ''R2''
                   ((sessionPatch None None)\<lparr>lru_session_end_time := Some 0\<rparr>) 4000 twoSessionsStore)))
       = [(''R1'', Some 30, Some 30), (''R2'', Some (- 60), Some (- 30))]"
  by (simp add: store_eqs sample_defs handler_defs)

section \<open>The status of an enrollment\<close>

text \<open>
  C2, as the code has it. For an enrollment whose status is \<open>assigned\<close>, an update by
  the learner who owns it that asks for the status \<open>completed\<close> (with any progress, 100
  too, and with no start or completion time in the request) succeeds: the status stays
  \<open>assigned\<close>, the start and completion times stay as they were, and the progress of the
  request, when there is one, is written.
\<close>

theorem learner_completed_request_on_assigned:
  assumes "single (filter (\<lambda>e. enr_id e = i) (enrollments st)) = Some existing"
    and "enr_status existing = assigned"
    and "user_role session = learner" and "enr_learner_id existing = user_id session"
    and "enrollmentUpdateSchema body"
    and "eu_status body = Some completed"
    and "eu_started_at body = None" and "eu_completed_at body = None"
  shows "PUT_enrollment session i body now st
           = (Inr (existing\<lparr>enr_progress_percentage :=
                              orElse (eu_progress_percentage body) (enr_progress_percentage existing),
                            enr_updated_at := Some now\<rparr>),
              update_enrollments i
                ((emptyUpdateData now)\<lparr>ud_progress_percentage := eu_progress_percentage body\<rparr>) st)"
proof -
  have ud: "learnerUpdateData existing body now
              = (emptyUpdateData now)\<lparr>ud_progress_percentage := eu_progress_percentage body\<rparr>"
    using assms by (simp add: learnerUpdateData_def Let_def)
  have row: "update_enrollment
               ((emptyUpdateData now)\<lparr>ud_progress_percentage := eu_progress_percentage body\<rparr>) existing
             = existing\<lparr>enr_progress_percentage :=
                          orElse (eu_progress_percentage body) (enr_progress_percentage existing),
                        enr_updated_at := Some now\<rparr>"
    by (simp add: update_enrollment_def emptyUpdateData_def)
  show ?thesis
    using assms(1,3,4,5)
    by (simp add: PUT_enrollment_def isAdmin_def Let_def ud row
          filter_id_update_enrollments single_map)
qed

theorem learner_completed_request_on_assigned_witness:
  "PUT_enrollment learnerL ''E'' (progressRequest (Some completed) (Some 100)) 1500 enrolledStore
     = (Inr \<lparr>enr_id = ''E'', enr_learner_id = ''L'', enr_course_id = ''C'',
             enr_status = assigned, enr_progress_percentage = Some 100,
             enr_assigned_by = Some ''A'', enr_assigned_at = Some 1000,
             enr_started_at = None, enr_completed_at = None,
             enr_due_date = None, enr_created_at = Some 1000,
             enr_updated_at = Some 1500\<rparr>,
        update_enrollments ''E''
          ((emptyUpdateData 1500)\<lparr>ud_progress_percentage := Some 100\<rparr>) enrolledStore)"
proof -
  let ?e = "\<lparr>enr_id = ''E'', enr_learner_id = ''L'', enr_course_id = ''C'',
         enr_status = assigned, enr_progress_percentage = None,
         enr_assigned_by = Some ''A'', enr_assigned_at = Some 1000,
         enr_started_at = None, enr_completed_at = None,
         enr_due_date = None, enr_created_at = Some 1000,
         enr_updated_at = Some 1000\<rparr>"
  let ?body = "progressRequest (Some completed) (Some 100)"
  have a: "single (filter (\<lambda>e. enr_id e = ''E'') (enrollments enrolledStore)) = Some ?e"
    by (simp add: store_eqs sample_defs)
  have b: "enr_status ?e = assigned" "user_role learnerL = learner"
    "enr_learner_id ?e = user_id learnerL" "enrollmentUpdateSchema ?body"
    "eu_status ?body = Some completed" "eu_started_at ?body = None" "eu_completed_at ?body = None"
    by (simp_all add: sample_defs enrollmentUpdateSchema_def percentageSchema_def)
  show ?thesis
    using learner_completed_request_on_assigned [OF a b, of 1500]
    by (simp add: sample_defs)
qed

text \<open>
  The claim as stated fails: the learner's request for \<open>completed\<close> at 100 percent on
  the \<open>assigned\<close> enrollment is not an error, and the enrollment changes (its progress
  becomes 100).
\<close>

theorem learner_completed_request_not_rejected:
  "\<not> isl (fst (PUT_enrollment learnerL ''E'' (progressRequest (Some completed) (Some 100)) 1500
                  enrolledStore))
   \<and> map enr_status (enrollments enrolledStore) = [assigned]
   \<and> map enr_progress_percentage (enrollments enrolledStore) = [None]
   \<and> map enr_progress_percentage
        (enrollments (snd (PUT_enrollment learnerL ''E'' (progressRequest (Some completed) (Some 100))
                             1500 enrolledStore)))
       = [Some 100]
   \<and> snd (PUT_enrollment learnerL ''E'' (progressRequest (Some completed) (Some 100)) 1500
             enrolledStore) \<noteq> enrolledStore"
  by (simp add: store_eqs sample_defs handler_defs)

text \<open>
  C7. No learner-initiated operation changes the status of an enrollment that is
  \<open>completed\<close> or \<open>cancelled\<close>. The code breaks it: the create of a learning record
  refuses a cancelled enrollment, the update of a learning record does not look at the
  enrollment. After L's first session the admin cancels the enrollment; L then updates
  the record of that session to 100 percent, and the enrollment is \<open>completed\<close>.
\<close>

theorem record_update_completes_cancelled_enrollment:
  "map enr_status (enrollments cancelledStore) = [cancelled]
   \<and> POST_learning_record learnerL (sessionRequest 3600000 None (Some 20) (Some 100)) 3000 ''R2''
        cancelledStore = (Inl CancelledEnrollment, cancelledStore)
   \<and> \<not> isl (fst (PUT_learning_record learnerL ''R1'' (sessionPatch None (Some 100)) 3000 cancelledStore))
   \<and> map enr_status
        (enrollments (snd (PUT_learning_record learnerL ''R1'' (sessionPatch None (Some 100)) 3000
                             cancelledStore)))
       = [completed]"
  by (simp add: store_eqs sample_defs handler_defs)

text \<open>
  C8. The enrollment update of a learning-record update that carries a progress is the
  one a create performs for the same progress and enrollment. The code breaks it for an
  \<open>assigned\<close> enrollment: the create starts the enrollment (status \<open>in_progress\<close>, start
  time set), the update leaves it \<open>assigned\<close> with no start time.
\<close>

theorem record_update_does_not_start_enrollment:
  "map enr_status (enrollments enrolledStore) = [assigned]
   \<and> map enr_status (enrollments unstartedStore) = [assigned]
   \<and> map enr_status
        (enrollments (snd (POST_learning_record learnerL (sessionRequest 0 None (Some 30) (Some 40))
                             2000 ''R1'' enrolledStore)))
       = [in_progress]
   \<and> map enr_started_at
        (enrollments (snd (POST_learning_record learnerL (sessionRequest 0 None (Some 30) (Some 40))
                             2000 ''R1'' enrolledStore)))
       = [Some 2000]
   \<and> map enr_status
        (enrollments (snd (PUT_learning_record learnerL ''R1'' (sessionPatch None (Some 40)) 2500
                             unstartedStore)))
       = [assigned]
   \<and> map enr_started_at
        (enrollments (snd (PUT_learning_record learnerL ''R1'' (sessionPatch None (Some 40)) 2500
                             unstartedStore)))
       = [None]
   \<and> createProgressUpdate assigned 40 2500 \<noteq> updateProgressUpdate 40 2500"
  by (simp add: store_eqs sample_defs handler_defs)

section \<open>Completion\<close>

lemma completion_ok_refl: "completion_ok e e"
  by (simp add: completion_ok_def)

lemma completion_ok_learner:
  "completion_ok e (update_enrollment (learnerUpdateData existing body now) e)"
  by (cases "eu_status body")
     (auto simp: completion_ok_def update_enrollment_def learnerUpdateData_def Let_def
        emptyUpdateData_def)

lemma completion_ok_create:
  "completion_ok e (update_enrollment (createProgressUpdate status progress now) e)"
  by (auto simp: completion_ok_def update_enrollment_def createProgressUpdate_def Let_def
        emptyUpdateData_def)

lemma completion_ok_update:
  "completion_ok e (update_enrollment (updateProgressUpdate progress now) e)"
  by (auto simp: completion_ok_def update_enrollment_def updateProgressUpdate_def Let_def
        emptyUpdateData_def)

lemma list_all2_update_enrollments:
  assumes "\<And>e. P e e" and "\<And>e. P e (update_enrollment ud e)"
  shows "list_all2 P (enrollments st) (enrollments (update_enrollments i ud st))"
  unfolding update_enrollments_def
  by (induction "enrollments st" arbitrary: st) (auto simp: assms list_all2_map2 intro!: list_all2_all_nthI)

lemma completion_ok_same: "list_all2 completion_ok xs xs"
  by (simp add: list_all2_same completion_ok_refl)

lemma enrollments_update_learning_records [simp]:
  "enrollments (update_learning_records i ud st) = enrollments st"
  by (simp add: update_learning_records_def)

lemma update_enrollments_learning_records_update:
  "enrollments (update_enrollments i ud (st\<lparr>learning_records := rs\<rparr>))
     = enrollments (update_enrollments i ud st)"
  by (simp add: update_enrollments_def)

lemma enrollments_update_enrollments_update_learning_records:
  "enrollments (update_enrollments i ud (update_learning_records j lud st))
     = enrollments (update_enrollments i ud st)"
  by (simp add: update_enrollments_def update_learning_records_def)

text \<open>
  C3, as the code has it. Whenever an update of an enrollment by a learner, a create
  of a learning record or an update of a learning record moves an enrollment into the
  status \<open>completed\<close>, the same write leaves it at 100 percent with a completion time.
  The rows of the enrollments before and after the operation correspond one to one.
\<close>

theorem completing_write_sets_progress_and_time:
  assumes "user_role session = learner"
  shows "list_all2 completion_ok (enrollments st)
           (enrollments (snd (PUT_enrollment session i body now st)))
       \<and> list_all2 completion_ok (enrollments st)
           (enrollments (snd (POST_learning_record anySession newRecord now newId st)))
       \<and> list_all2 completion_ok (enrollments st)
           (enrollments (snd (PUT_learning_record anySession j patch now st)))"
proof (intro conjI)
  show "list_all2 completion_ok (enrollments st)
          (enrollments (snd (PUT_enrollment session i body now st)))"
    using assms
    by (auto simp: PUT_enrollment_def isAdmin_def Let_def completion_ok_same
          completion_ok_refl completion_ok_learner
          split: option.splits intro!: list_all2_update_enrollments)
  show "list_all2 completion_ok (enrollments st)
          (enrollments (snd (POST_learning_record anySession newRecord now newId st)))"
    by (auto simp: POST_learning_record_def Let_def completion_ok_same
          completion_ok_refl completion_ok_create update_enrollments_learning_records_update
          split: option.splits intro!: list_all2_update_enrollments)
  show "list_all2 completion_ok (enrollments st)
          (enrollments (snd (PUT_learning_record anySession j patch now st)))"
    by (auto simp: PUT_learning_record_def Let_def completion_ok_same
          completion_ok_refl completion_ok_update
          enrollments_update_enrollments_update_learning_records
          split: option.splits intro!: list_all2_update_enrollments)
qed

theorem completing_write_sets_progress_and_time_witness:
  "user_role learnerL = learner
   \<and> list_all2 completion_ok (enrollments startedStore)
        (enrollments (snd (PUT_enrollment learnerL ''E'' (progressRequest (Some completed) (Some 100))
                             3000 startedStore)))
   \<and> map enr_status (enrollments startedStore) = [in_progress]
   \<and> map enr_status
        (enrollments (snd (PUT_enrollment learnerL ''E'' (progressRequest (Some completed) (Some 100))
                             3000 startedStore)))
       = [completed]
   \<and> map enr_progress_percentage
        (enrollments (snd (PUT_enrollment learnerL ''E'' (progressRequest (Some completed) (Some 100))
                             3000 startedStore)))
       = [Some 100]
   \<and> map enr_completed_at
        (enrollments (snd (PUT_enrollment learnerL ''E'' (progressRequest (Some completed) (Some 100))
                             3000 startedStore)))
       = [Some 3000]"
proof -
  have a: "user_role learnerL = learner"
    by (simp add: sample_defs)
  have b: "map enr_status (enrollments startedStore) = [in_progress]"
    by (simp add: store_eqs sample_defs)
  have c: "enrollments (snd (PUT_enrollment learnerL ''E'' (progressRequest (Some completed) (Some 100))
                             3000 startedStore))
           = [\<lparr>enr_id = ''E'', enr_learner_id = ''L'', enr_course_id = ''C'',
               enr_status = completed, enr_progress_percentage = Some 100,
               enr_assigned_by = Some ''A'', enr_assigned_at = Some 1000,
               enr_started_at = Some 2000, enr_completed_at = Some 3000,
               enr_due_date = None, enr_created_at = Some 1000,
               enr_updated_at = Some 3000\<rparr>]"
    by (simp add: store_eqs sample_defs handler_defs)
  have d: "list_all2 completion_ok (enrollments startedStore)
        (enrollments (snd (PUT_enrollment learnerL ''E'' (progressRequest (Some completed) (Some 100))
                             3000 startedStore)))"
    using completing_write_sets_progress_and_time [OF a] by blast
  show ?thesis
    using a b d by (simp add: c)
qed

text \<open>
  The claim as stated fails on reachable enrollments. After L's first session the
  admin sets the status \<open>completed\<close> at 50 percent: the enrollment is \<open>completed\<close> at 50
  percent with no completion time. And after L completed the course, L's update of the
  progress to 40 leaves a \<open>completed\<close> enrollment at 40 percent.
\<close>

theorem completed_without_full_progress:
  "\<not> isl (fst (PUT_enrollment adminA ''E'' (progressRequest (Some completed) (Some 50)) 2500 startedStore))
   \<and> map enr_status
        (enrollments (snd (PUT_enrollment adminA ''E'' (progressRequest (Some completed) (Some 50))
                             2500 startedStore)))
       = [completed]
   \<and> map enr_progress_percentage
        (enrollments (snd (PUT_enrollment adminA ''E'' (progressRequest (Some completed) (Some 50))
                             2500 startedStore)))
       = [Some 50]
   \<and> map enr_completed_at
        (enrollments (snd (PUT_enrollment adminA ''E'' (progressRequest (Some completed) (Some 50))
                             2500 startedStore)))
       = [None]
   \<and> \<not> list_all completion_invariant
         (enrollments (snd (PUT_enrollment adminA ''E'' (progressRequest (Some completed) (Some 50))
                              2500 startedStore)))
   \<and> list_all completion_invariant (enrollments completedStore)
   \<and> \<not> list_all completion_invariant
         (enrollments (snd (PUT_enrollment learnerL ''E'' (progressRequest None (Some 40))
                              4000 completedStore)))"
  by (simp add: completion_invariant_def store_eqs sample_defs handler_defs)

end
